theory Spec2Isabelle
  imports Complex_Main
begin

section \<open>The process environment\<close>

text \<open>
  \<^verbatim>\<open>os.environ\<close> as \<^verbatim>\<open>main\<close> finds it (after \<^verbatim>\<open>load_dotenv()\<close> has run at import
  time): a partial map from variable names to values. \<^verbatim>\<open>os.getenv(key)\<close> gives
  \<^verbatim>\<open>None\<close> for a variable that is not set, \<^verbatim>\<open>os.getenv(key, default)\<close> gives the
  default then.
\<close>

type_synonym environ = "string \<rightharpoonup> string"

definition getenv :: "environ \<Rightarrow> string \<Rightarrow> string option" where
  "getenv env key = env key"

definition getenv_default :: "environ \<Rightarrow> string \<Rightarrow> string \<Rightarrow> string" where
  "getenv_default env key dflt = (case env key of None \<Rightarrow> dflt | Some v \<Rightarrow> v)"

text \<open>
  Python's truth value of an \<^verbatim>\<open>Optional[str]\<close>: \<^verbatim>\<open>None\<close> and the empty string are
  false. \<^verbatim>\<open>all([...])\<close> is the conjunction of the truth values.
\<close>

fun truthy :: "string option \<Rightarrow> bool" where
  "truthy None = False"
| "truthy (Some s) = (s \<noteq> [])"

definition all_py :: "string option list \<Rightarrow> bool" where
  "all_py xs = list_all truthy xs"

text \<open>How an f-string prints an \<^verbatim>\<open>Optional[str]\<close>.\<close>

fun fstr :: "string option \<Rightarrow> string" where
  "fstr None = ''None''"
| "fstr (Some s) = s"

section \<open>Exceptions\<close>

text \<open>
  \<^verbatim>\<open>main\<close> raises \<^verbatim>\<open>ValueError\<close> itself, catches \<^verbatim>\<open>ImportError\<close> around the making
  of the room token and \<^verbatim>\<open>KeyboardInterrupt\<close> around the run; anything else the
  libraries may raise is an \<open>OtherException\<close>, which \<^verbatim>\<open>main\<close> does not catch.
\<close>

datatype exn = ValueError string | ImportError | KeyboardInterrupt | OtherException string

section \<open>The objects main constructs\<close>

record DeepgramSTTService =
  stt_api_key :: "string option"

record OpenAILLMService =
  llm_api_key :: "string option"
  llm_model :: string

record OpenAITTSService =
  tts_api_key :: "string option"
  tts_voice :: string
  tts_model :: string

record Message =
  role :: string
  content :: string

record LLMContext =
  messages :: "Message list"

record LLMContextAggregatorPair =
  pair_context :: LLMContext

record VideoGrants =
  room_join :: bool
  room :: string
  can_publish :: bool
  can_subscribe :: bool

record AccessToken =
  at_api_key :: "string option"
  at_api_secret :: "string option"
  at_identity :: string
  at_name :: string
  at_grants :: "VideoGrants option"

text \<open>
  The livekit package is not part of this repository. Either it is not installed, and
  \<^verbatim>\<open>from livekit import api\<close> raises \<^verbatim>\<open>ImportError\<close>, or it is, and what the chain
  \<^verbatim>\<open>api.AccessToken(...).with_identity(...).with_name(...).with_grants(...).to_jwt()\<close>
  does with the access token it is given is the package's: it returns the JWT, a
  string, or raises.
\<close>

datatype livekit_package = NotInstalled | Installed "AccessToken \<Rightarrow> exn + string"

record VADParams =
  start_secs :: rat
  stop_secs :: rat

record SileroVADAnalyzer =
  vad_params :: VADParams

record LiveKitParams =
  audio_in_enabled :: bool
  audio_out_enabled :: bool
  video_in_enabled :: bool
  video_out_enabled :: bool
  vad_analyzer :: SileroVADAnalyzer

record LiveKitTransport =
  room_url :: "string option"
  room_token :: string
  transport_params :: LiveKitParams

text \<open>A stage of the pipeline, in the terms of the list \<^verbatim>\<open>Pipeline([...])\<close> is given.\<close>

datatype stage =
    TransportInput LiveKitTransport
  | STT DeepgramSTTService
  | LLMUserResponseAggregator
  | ContextUser LLMContextAggregatorPair
  | LLM OpenAILLMService
  | LLMResponseAggregator
  | ContextAssistant LLMContextAggregatorPair
  | TTS OpenAITTSService
  | TransportOutput LiveKitTransport

record PipelineParams =
  allow_interruptions :: bool
  enable_metrics :: bool

record PipelineTask =
  task_pipeline :: "stage list"
  task_params :: PipelineParams

datatype frame = LLMRunFrame

section \<open>Effects\<close>

text \<open>
  What \<^verbatim>\<open>main\<close> does to the world, in order: a line printed, an object constructed, a
  handler registered on the transport, the runner started on a task, frames queued
  into the task, the transport cleaned up.
\<close>

datatype action =
    Print string
  | NewSTT DeepgramSTTService
  | NewLLM OpenAILLMService
  | NewTTS OpenAITTSService
  | NewContext LLMContext
  | NewContextAggregatorPair LLMContextAggregatorPair
  | NewUserResponseAggregator
  | NewLLMResponseAggregator
  | NewTransport LiveKitTransport
  | NewPipeline "stage list"
  | NewTask PipelineTask
  | RegisterHandler string
  | NewRunner
  | RunnerRun PipelineTask
  | QueueFrames "frame list"
  | Cleanup

section \<open>Transport events and their handlers\<close>

record participant =
  identity :: string

record room_info =
  room_name :: string

datatype event =
    ParticipantConnected participant
  | ParticipantDisconnected participant
  | RoomConnected room_info
  | RoomDisconnected room_info

fun event_name :: "event \<Rightarrow> string" where
  "event_name (ParticipantConnected _) = ''on_participant_connected''"
| "event_name (ParticipantDisconnected _) = ''on_participant_disconnected''"
| "event_name (RoomConnected _) = ''on_room_connected''"
| "event_name (RoomDisconnected _) = ''on_room_disconnected''"

text \<open>
  The four handlers of \<^verbatim>\<open>main\<close> (lines 185-205). Each is a closure over \<^verbatim>\<open>task\<close>;
  \<^verbatim>\<open>task.queue_frames(fs)\<close> is the action \<open>QueueFrames fs\<close>.
\<close>

definition on_participant_connected :: "participant \<Rightarrow> action list" where
  "on_participant_connected p =
     [Print (''Participant connected: '' @ identity p), QueueFrames [LLMRunFrame]]"

definition on_participant_disconnected :: "participant \<Rightarrow> action list" where
  "on_participant_disconnected p = [Print (''Participant disconnected: '' @ identity p)]"

definition on_room_connected :: "room_info \<Rightarrow> action list" where
  "on_room_connected r = [Print (''Bot connected to room: '' @ room_name r)]"

definition on_room_disconnected :: "room_info \<Rightarrow> action list" where
  "on_room_disconnected r = [Print (''Bot disconnected from room: '' @ room_name r)]"

datatype handler =
    OnParticipant "participant \<Rightarrow> action list"
  | OnRoom "room_info \<Rightarrow> action list"

text \<open>The registrations, in the order \<^verbatim>\<open>main\<close> makes them.\<close>

definition event_handlers :: "(string \<times> handler) list" where
  "event_handlers =
     [(''on_participant_connected'', OnParticipant on_participant_connected),
      (''on_participant_disconnected'', OnParticipant on_participant_disconnected),
      (''on_room_connected'', OnRoom on_room_connected),
      (''on_room_disconnected'', OnRoom on_room_disconnected)]"

fun call_handler :: "handler \<Rightarrow> event \<Rightarrow> action list" where
  "call_handler (OnParticipant h) (ParticipantConnected p) = h p"
| "call_handler (OnParticipant h) (ParticipantDisconnected p) = h p"
| "call_handler (OnRoom h) (RoomConnected r) = h r"
| "call_handler (OnRoom h) (RoomDisconnected r) = h r"
| "call_handler _ _ = []"

text \<open>
  Modelled from the spec: the transport's event registry is the pipecat library's, not
  this repository's. Section 9 of the spec describes it: a table from event kind to an
  ordered list of handlers, invoked synchronously in registration order with the event
  payload.
\<close>

definition dispatch :: "(string \<times> handler) list \<Rightarrow> event \<Rightarrow> action list" where
  "dispatch table ev =
     concat (map (\<lambda>(n, h). if n = event_name ev then call_handler h ev else []) table)"

text \<open>
  What \<^verbatim>\<open>await runner.run(task)\<close> does is the library's and the room's: the transport
  raises some events while the runner runs, and the run then completes or raises.
\<close>

record run_script =
  events :: "event list"
  ending :: "exn option"

definition runner_run :: "(string \<times> handler) list \<Rightarrow> event list \<Rightarrow> action list" where
  "runner_run table evs = concat (map (dispatch table) evs)"

section \<open>main\<close>

text \<open>
  Lines 106-126: the room token. The \<^verbatim>\<open>try\<close> block imports the livekit package and
  has it make a JWT of an access token; only \<^verbatim>\<open>ImportError\<close> is caught, and then the
  token is read from \<^verbatim>\<open>LIVEKIT_TOKEN\<close>. Any other exception of the block leaves
  \<^verbatim>\<open>main\<close>.
\<close>

definition new_AccessToken :: "string option \<Rightarrow> string option \<Rightarrow> AccessToken" where
  "new_AccessToken key secret =
     \<lparr>at_api_key = key, at_api_secret = secret, at_identity = [], at_name = [],
      at_grants = None\<rparr>"

definition with_identity :: "string \<Rightarrow> AccessToken \<Rightarrow> AccessToken" where
  "with_identity i t = t\<lparr>at_identity := i\<rparr>"

definition with_name :: "string \<Rightarrow> AccessToken \<Rightarrow> AccessToken" where
  "with_name n t = t\<lparr>at_name := n\<rparr>"

definition with_grants :: "VideoGrants \<Rightarrow> AccessToken \<Rightarrow> AccessToken" where
  "with_grants g t = t\<lparr>at_grants := Some g\<rparr>"

definition env_token :: "environ \<Rightarrow> exn + string" where
  "env_token env =
     (case getenv env ''LIVEKIT_TOKEN'' of
        None \<Rightarrow>
          Inl (ValueError
            (''LIVEKIT_TOKEN required if livekit package not installed. '' @
             ''Install with: pip install livekit''))
      | Some t \<Rightarrow>
          if t = [] then
            Inl (ValueError
              (''LIVEKIT_TOKEN required if livekit package not installed. '' @
               ''Install with: pip install livekit''))
          else Inr t)"

definition make_token ::
  "livekit_package \<Rightarrow> environ \<Rightarrow> string option \<Rightarrow> string option \<Rightarrow> string \<Rightarrow> string \<Rightarrow>
   exn + string"
where
  "make_token livekit env livekit_api_key livekit_api_secret participant_name rname =
     (case livekit of
        NotInstalled \<Rightarrow> env_token env
      | Installed to_jwt \<Rightarrow>
          (case to_jwt
                  (with_grants
                     \<lparr>room_join = True, room = rname, can_publish = True,
                      can_subscribe = True\<rparr>
                     (with_name ''AI Assistant''
                        (with_identity participant_name
                           (new_AccessToken livekit_api_key livekit_api_secret)))) of
             Inr jwt \<Rightarrow> Inr jwt
           | Inl ImportError \<Rightarrow> env_token env
           | Inl e \<Rightarrow> Inl e))"

text \<open>Lines 87-97: the conversation context starts from this list of messages.\<close>

definition initial_messages :: "Message list" where
  "initial_messages =
     [\<lparr>role = ''system'',
       content =
         ''You are a helpful and friendly assistant. '' @
         ''Keep your responses concise and natural for voice conversation. '' @
         ''Respond in a conversational, friendly tone.''\<rparr>]"

text \<open>Lines 128-143: the transport.\<close>

definition new_transport :: "string option \<Rightarrow> string \<Rightarrow> LiveKitTransport" where
  "new_transport url tok =
     \<lparr>room_url = url, room_token = tok,
      transport_params =
        \<lparr>audio_in_enabled = True, audio_out_enabled = True,
         video_in_enabled = False, video_out_enabled = False,
         vad_analyzer = \<lparr>vad_params = \<lparr>start_secs = 3 / 10, stop_secs = 1 / 2\<rparr>\<rparr>\<rparr>\<rparr>"

text \<open>
  Lines 208-214: the runner is run on the task inside
  \<^verbatim>\<open>try ... except KeyboardInterrupt ... finally\<close>. The result is what the run did,
  then what the handlers of the \<^verbatim>\<open>try\<close> statement do, and the exception that leaves
  \<^verbatim>\<open>main\<close>, if any.
\<close>

definition except_KeyboardInterrupt :: "exn option \<Rightarrow> action list \<times> exn option" where
  "except_KeyboardInterrupt raised =
     (case raised of
        Some KeyboardInterrupt \<Rightarrow> ([Print (CHR 0x0A # ''Shutting down...'')], None)
      | _ \<Rightarrow> ([], raised))"

definition run_and_cleanup :: "PipelineTask \<Rightarrow> run_script \<Rightarrow> action list \<times> exn option" where
  "run_and_cleanup task script =
     (let ran = [NewRunner, RunnerRun task] @ runner_run event_handlers (events script);
          (handled, raised) = except_KeyboardInterrupt (ending script)
      in (ran @ handled @ [Cleanup], raised))"

text \<open>Lines 71-84: the three services.\<close>

definition new_stt :: "string option \<Rightarrow> DeepgramSTTService" where
  "new_stt deepgram_api_key = \<lparr>stt_api_key = deepgram_api_key\<rparr>"

definition new_llm :: "string option \<Rightarrow> OpenAILLMService" where
  "new_llm openai_api_key = \<lparr>llm_api_key = openai_api_key, llm_model = ''gpt-4o-mini''\<rparr>"

definition new_tts :: "string option \<Rightarrow> OpenAITTSService" where
  "new_tts openai_api_key =
     \<lparr>tts_api_key = openai_api_key, tts_voice = ''alloy'', tts_model = ''tts-1''\<rparr>"

text \<open>Lines 146-173: the list of stages \<^verbatim>\<open>Pipeline\<close> is given.\<close>

definition new_pipeline ::
  "LiveKitTransport \<Rightarrow> DeepgramSTTService \<Rightarrow> LLMContextAggregatorPair \<Rightarrow> OpenAILLMService \<Rightarrow>
   OpenAITTSService \<Rightarrow> stage list"
where
  "new_pipeline transport stt context_aggregator llm tts =
     [TransportInput transport,
      STT stt,
      LLMUserResponseAggregator,
      ContextUser context_aggregator,
      LLM llm,
      LLMResponseAggregator,
      ContextAssistant context_aggregator,
      TTS tts,
      TransportOutput transport]"

text \<open>Lines 176-182: the task.\<close>

definition new_task :: "stage list \<Rightarrow> PipelineTask" where
  "new_task pipeline =
     \<lparr>task_pipeline = pipeline,
      task_params = \<lparr>allow_interruptions = True, enable_metrics = True\<rparr>\<rparr>"

text \<open>
  Lines 71-214: the services, the context, the token, the transport, the pipeline, the
  task, the event handlers and the run, once the environment has been validated.
\<close>

definition assemble ::
  "environ \<Rightarrow> livekit_package \<Rightarrow> run_script \<Rightarrow> string option \<Rightarrow> string option \<Rightarrow>
   string option \<Rightarrow>
   string option \<Rightarrow> string option \<Rightarrow> string \<Rightarrow> string \<Rightarrow> action list \<times> exn option"
where
  "assemble env livekit script livekit_url livekit_api_key livekit_api_secret
     openai_api_key deepgram_api_key rname participant_name =
     (let stt = new_stt deepgram_api_key;
          llm = new_llm openai_api_key;
          tts = new_tts openai_api_key;
          context = \<lparr>messages = initial_messages\<rparr>;
          context_aggregator = \<lparr>pair_context = context\<rparr>;
          made = [NewSTT stt, NewLLM llm, NewTTS tts, NewContext context,
                  NewContextAggregatorPair context_aggregator,
                  NewUserResponseAggregator, NewLLMResponseAggregator]
      in case make_token livekit env livekit_api_key livekit_api_secret
                participant_name rname of
           Inl e \<Rightarrow> (made, Some e)
         | Inr tok \<Rightarrow>
             (let transport = new_transport livekit_url tok;
                  pipeline = new_pipeline transport stt context_aggregator llm tts;
                  task = new_task pipeline;
                  built = made @ [NewTransport transport, NewPipeline pipeline, NewTask task]
                            @ map (\<lambda>(n, h). RegisterHandler n) event_handlers;
                  (ran, raised) = run_and_cleanup task script
              in (built @ ran, raised)))"

text \<open>
  Lines 38-69: the environment is read and validated. The result of \<^verbatim>\<open>main\<close> is the
  list of its actions, in order, and the exception it raises, if any.
\<close>

definition main ::
  "environ \<Rightarrow> livekit_package \<Rightarrow> run_script \<Rightarrow> action list \<times> exn option"
where
  "main env livekit script =
     (let livekit_url = getenv env ''LIVEKIT_URL'';
          livekit_api_key = getenv env ''LIVEKIT_API_KEY'';
          livekit_api_secret = getenv env ''LIVEKIT_API_SECRET'';
          openai_api_key = getenv env ''OPENAI_API_KEY'';
          deepgram_api_key = getenv env ''DEEPGRAM_API_KEY''
      in if \<not> all_py [livekit_url, livekit_api_key, livekit_api_secret, openai_api_key] then
           ([], Some (ValueError
              (''Missing required environment variables: '' @
               ''LIVEKIT_URL, LIVEKIT_API_KEY, LIVEKIT_API_SECRET, OPENAI_API_KEY'')))
         else
           (let warned =
                  (if \<not> truthy deepgram_api_key then
                     [Print ''Warning: DEEPGRAM_API_KEY not set. STT will not work without it.'',
                      Print ''Get your API key from: https://console.deepgram.com/'']
                   else []);
                rname = getenv_default env ''LIVEKIT_ROOM'' ''default-room'';
                participant_name = getenv_default env ''LIVEKIT_PARTICIPANT_NAME'' ''assistant'';
                printed = warned @
                  [Print (''Connecting to LiveKit room: '' @ rname),
                   Print (''LiveKit URL: '' @ fstr livekit_url)]
            in if \<not> truthy deepgram_api_key then
                 (printed,
                  Some (ValueError ''DEEPGRAM_API_KEY is required for STT functionality''))
               else
                 (let (rest, raised) =
                        assemble env livekit script livekit_url livekit_api_key
                          livekit_api_secret openai_api_key deepgram_api_key rname
                          participant_name
                  in (printed @ rest, raised))))"

section \<open>The runtime behind the pipeline\<close>

text \<open>
  Modelled from the spec: the context aggregator pair is the pipecat library's, which is
  not in this repository. Section 4.4 of the spec gives it exactly two write entry
  points, \<^verbatim>\<open>appendUser(text)\<close> and \<^verbatim>\<open>appendAssistant(text)\<close>, each appending one
  message with the corresponding role to the shared context, called when a response
  aggregator finalizes a turn; \<^verbatim>\<open>snapshot()\<close> returns the current sequence of messages.
\<close>

definition appendUser :: "string \<Rightarrow> LLMContext \<Rightarrow> LLMContext" where
  "appendUser s ctx = ctx\<lparr>messages := messages ctx @ [\<lparr>role = ''user'', content = s\<rparr>]\<rparr>"

definition appendAssistant :: "string \<Rightarrow> LLMContext \<Rightarrow> LLMContext" where
  "appendAssistant s ctx =
     ctx\<lparr>messages := messages ctx @ [\<lparr>role = ''assistant'', content = s\<rparr>]\<rparr>"

definition snapshot :: "LLMContext \<Rightarrow> Message list" where
  "snapshot ctx = messages ctx"

text \<open>
  A finalized turn, as a response aggregator hands it to its side of the pair: the
  user side (the stage after the user response aggregator) calls \<open>appendUser\<close>, the
  assistant side (the stage after the LLM response aggregator) calls
  \<open>appendAssistant\<close>.
\<close>

datatype turn = UserTurn string | AssistantTurn string

fun write_turn :: "LLMContext \<Rightarrow> turn \<Rightarrow> LLMContext" where
  "write_turn ctx (UserTurn s) = appendUser s ctx"
| "write_turn ctx (AssistantTurn s) = appendAssistant s ctx"

fun turn_message :: "turn \<Rightarrow> Message" where
  "turn_message (UserTurn s) = \<lparr>role = ''user'', content = s\<rparr>"
| "turn_message (AssistantTurn s) = \<lparr>role = ''assistant'', content = s\<rparr>"

definition after_turns :: "LLMContext \<Rightarrow> turn list \<Rightarrow> LLMContext" where
  "after_turns ctx turns = foldl write_turn ctx turns"

text \<open>
  Modelled from the spec: the turn-taking state machine is the pipecat library's, which
  is not in this repository. Section 4.2 of the spec: in Idle or AssistantSpeaking,
  SpeechStarted leads to UserSpeaking, and from AssistantSpeaking this is an
  interruption, which emits ControlInterrupt. Section 6: when \<^verbatim>\<open>allow_interruptions\<close>
  is false the machine never makes that transition early and queues the interruption
  instead. The spec gives SpeechStarted no transition in the two other states.
\<close>

datatype turn_state = Idle | UserSpeaking | Processing | AssistantSpeaking

datatype interruption = NoInterruption | ControlInterrupt | QueuedInterruption

fun speech_started :: "bool \<Rightarrow> turn_state \<Rightarrow> turn_state \<times> interruption" where
  "speech_started allow Idle = (UserSpeaking, NoInterruption)"
| "speech_started allow AssistantSpeaking =
     (if allow then (UserSpeaking, ControlInterrupt)
      else (AssistantSpeaking, QueuedInterruption))"
| "speech_started allow UserSpeaking = (UserSpeaking, NoInterruption)"
| "speech_started allow Processing = (Processing, NoInterruption)"

section \<open>Observations on a run\<close>

text \<open>
  What a list of actions holds, in order: the pipelines, tasks, transports and contexts
  constructed, the tasks the runner was started on, the frames queued into the task,
  and the number of calls of \<^verbatim>\<open>transport.cleanup()\<close>.
\<close>

fun pipelines_built :: "action list \<Rightarrow> stage list list" where
  "pipelines_built [] = []"
| "pipelines_built (NewPipeline p # as) = p # pipelines_built as"
| "pipelines_built (_ # as) = pipelines_built as"

fun tasks_built :: "action list \<Rightarrow> PipelineTask list" where
  "tasks_built [] = []"
| "tasks_built (NewTask t # as) = t # tasks_built as"
| "tasks_built (_ # as) = tasks_built as"

fun tasks_run :: "action list \<Rightarrow> PipelineTask list" where
  "tasks_run [] = []"
| "tasks_run (RunnerRun t # as) = t # tasks_run as"
| "tasks_run (_ # as) = tasks_run as"

fun transports_built :: "action list \<Rightarrow> LiveKitTransport list" where
  "transports_built [] = []"
| "transports_built (NewTransport t # as) = t # transports_built as"
| "transports_built (_ # as) = transports_built as"

fun contexts_built :: "action list \<Rightarrow> LLMContext list" where
  "contexts_built [] = []"
| "contexts_built (NewContext c # as) = c # contexts_built as"
| "contexts_built (_ # as) = contexts_built as"

fun queued_frames :: "action list \<Rightarrow> frame list" where
  "queued_frames [] = []"
| "queued_frames (QueueFrames fs # as) = fs @ queued_frames as"
| "queued_frames (_ # as) = queued_frames as"

fun cleanups :: "action list \<Rightarrow> nat" where
  "cleanups [] = 0"
| "cleanups (Cleanup # as) = Suc (cleanups as)"
| "cleanups (_ # as) = cleanups as"

text \<open>The two kinds of action an event handler of \<^verbatim>\<open>main\<close> performs.\<close>

fun is_handler_action :: "action \<Rightarrow> bool" where
  "is_handler_action (Print _) = True"
| "is_handler_action (QueueFrames _) = True"
| "is_handler_action _ = False"

fun is_participant_connected :: "event \<Rightarrow> bool" where
  "is_participant_connected (ParticipantConnected _) = True"
| "is_participant_connected _ = False"

text \<open>The two views of the context aggregator pair among the stages.\<close>

fun is_context_view :: "stage \<Rightarrow> bool" where
  "is_context_view (ContextUser _) = True"
| "is_context_view (ContextAssistant _) = True"
| "is_context_view _ = False"

text \<open>
  An installed livekit package for concrete runs. As livekit-api does, its chain
  refuses with a \<^verbatim>\<open>ValueError\<close> an access token that grants joining a room and has no
  identity or no room; otherwise it returns a string in place of the signed encoding.
\<close>

definition sample_to_jwt :: "AccessToken \<Rightarrow> exn + string" where
  "sample_to_jwt t =
     (case at_grants t of
        None \<Rightarrow> Inr (''jwt:'' @ at_identity t)
      | Some g \<Rightarrow>
          if room_join g \<and> (at_identity t = [] \<or> room g = []) then
            Inl (ValueError ''identity and room must be set when joining a room'')
          else Inr (''jwt:'' @ at_identity t @ ''@'' @ room g))"

text \<open>The four variables of the first check are set and not empty.\<close>

definition required_ok :: "environ \<Rightarrow> bool" where
  "required_ok env =
     (truthy (env ''LIVEKIT_URL'') \<and> truthy (env ''LIVEKIT_API_KEY'') \<and>
      truthy (env ''LIVEKIT_API_SECRET'') \<and> truthy (env ''OPENAI_API_KEY''))"

text \<open>The outcome of making the room token, with the arguments \<^verbatim>\<open>main\<close> passes.\<close>

definition token_result :: "environ \<Rightarrow> livekit_package \<Rightarrow> exn + string" where
  "token_result env livekit =
     make_token livekit env (env ''LIVEKIT_API_KEY'') (env ''LIVEKIT_API_SECRET'')
       (getenv_default env ''LIVEKIT_PARTICIPANT_NAME'' ''assistant'')
       (getenv_default env ''LIVEKIT_ROOM'' ''default-room'')"

text \<open>
  The runs in which \<^verbatim>\<open>main\<close> gets as far as running the pipeline: the four variables
  of the first check and \<^verbatim>\<open>DEEPGRAM_API_KEY\<close> are set and not empty, and the room token
  is made.
\<close>

definition starts :: "environ \<Rightarrow> livekit_package \<Rightarrow> bool" where
  "starts env livekit =
     (required_ok env \<and> truthy (env ''DEEPGRAM_API_KEY'') \<and>
      (case token_result env livekit of Inl e \<Rightarrow> False | Inr tok \<Rightarrow> True))"

text \<open>The objects and the actions of such a run, from the environment.\<close>

definition token_of :: "environ \<Rightarrow> livekit_package \<Rightarrow> string" where
  "token_of env livekit = (case token_result env livekit of Inl e \<Rightarrow> [] | Inr tok \<Rightarrow> tok)"

definition pipeline_of :: "environ \<Rightarrow> livekit_package \<Rightarrow> stage list" where
  "pipeline_of env livekit =
     new_pipeline (new_transport (env ''LIVEKIT_URL'') (token_of env livekit))
       (new_stt (env ''DEEPGRAM_API_KEY''))
       \<lparr>pair_context = \<lparr>messages = initial_messages\<rparr>\<rparr>
       (new_llm (env ''OPENAI_API_KEY'')) (new_tts (env ''OPENAI_API_KEY''))"

definition banner :: "environ \<Rightarrow> action list" where
  "banner env =
     [Print (''Connecting to LiveKit room: '' @ getenv_default env ''LIVEKIT_ROOM'' ''default-room''),
      Print (''LiveKit URL: '' @ fstr (env ''LIVEKIT_URL''))]"

definition made :: "environ \<Rightarrow> action list" where
  "made env =
     [NewSTT (new_stt (env ''DEEPGRAM_API_KEY'')), NewLLM (new_llm (env ''OPENAI_API_KEY'')),
      NewTTS (new_tts (env ''OPENAI_API_KEY'')), NewContext \<lparr>messages = initial_messages\<rparr>,
      NewContextAggregatorPair \<lparr>pair_context = \<lparr>messages = initial_messages\<rparr>\<rparr>,
      NewUserResponseAggregator, NewLLMResponseAggregator]"

definition wired :: "environ \<Rightarrow> livekit_package \<Rightarrow> action list" where
  "wired env livekit =
     [NewTransport (new_transport (env ''LIVEKIT_URL'') (token_of env livekit)),
      NewPipeline (pipeline_of env livekit),
      NewTask (new_task (pipeline_of env livekit)),
      RegisterHandler ''on_participant_connected'',
      RegisterHandler ''on_participant_disconnected'',
      RegisterHandler ''on_room_connected'',
      RegisterHandler ''on_room_disconnected'',
      NewRunner,
      RunnerRun (new_task (pipeline_of env livekit))]"

section \<open>The runs of main, case by case\<close>

lemma all_py_required:
  "all_py [getenv env ''LIVEKIT_URL'', getenv env ''LIVEKIT_API_KEY'',
           getenv env ''LIVEKIT_API_SECRET'', getenv env ''OPENAI_API_KEY''] = required_ok env"
  by (simp add: all_py_def getenv_def required_ok_def)

lemma main_required_missing:
  "\<not> required_ok env \<Longrightarrow>
   main env livekit script =
     ([], Some (ValueError
        (''Missing required environment variables: '' @
         ''LIVEKIT_URL, LIVEKIT_API_KEY, LIVEKIT_API_SECRET, OPENAI_API_KEY'')))"
  unfolding main_def Let_def all_py_required by simp

lemma main_deepgram_missing:
  "required_ok env \<Longrightarrow> \<not> truthy (env ''DEEPGRAM_API_KEY'') \<Longrightarrow>
   main env livekit script =
     ([Print ''Warning: DEEPGRAM_API_KEY not set. STT will not work without it.'',
       Print ''Get your API key from: https://console.deepgram.com/''] @ banner env,
      Some (ValueError ''DEEPGRAM_API_KEY is required for STT functionality''))"
  unfolding main_def Let_def all_py_required by (simp add: getenv_def banner_def)

lemma main_validated:
  "required_ok env \<Longrightarrow> truthy (env ''DEEPGRAM_API_KEY'') \<Longrightarrow>
   main env livekit script =
     (banner env @
        fst (assemble env livekit script (env ''LIVEKIT_URL'') (env ''LIVEKIT_API_KEY'')
               (env ''LIVEKIT_API_SECRET'') (env ''OPENAI_API_KEY'') (env ''DEEPGRAM_API_KEY'')
               (getenv_default env ''LIVEKIT_ROOM'' ''default-room'')
               (getenv_default env ''LIVEKIT_PARTICIPANT_NAME'' ''assistant'')),
      snd (assemble env livekit script (env ''LIVEKIT_URL'') (env ''LIVEKIT_API_KEY'')
               (env ''LIVEKIT_API_SECRET'') (env ''OPENAI_API_KEY'') (env ''DEEPGRAM_API_KEY'')
               (getenv_default env ''LIVEKIT_ROOM'' ''default-room'')
               (getenv_default env ''LIVEKIT_PARTICIPANT_NAME'' ''assistant'')))"
  unfolding main_def Let_def all_py_required
  by (simp add: getenv_def banner_def split_beta)

lemma assemble_token_error:
  "make_token livekit env k s p r = Inl e \<Longrightarrow>
   assemble env livekit script (env ''LIVEKIT_URL'') k s (env ''OPENAI_API_KEY'')
     (env ''DEEPGRAM_API_KEY'') r p = (made env, Some e)"
  unfolding assemble_def Let_def by (simp add: made_def)

lemma run_and_cleanup_eq:
  "run_and_cleanup task script =
     ([NewRunner, RunnerRun task] @ runner_run event_handlers (events script) @
        fst (except_KeyboardInterrupt (ending script)) @ [Cleanup],
      snd (except_KeyboardInterrupt (ending script)))"
  unfolding run_and_cleanup_def Let_def by (simp add: split_beta)

lemma assemble_token_ok:
  "make_token livekit env k s p r = Inr tok \<Longrightarrow>
   assemble env livekit script url k s okey dkey r p =
     ([NewSTT (new_stt dkey), NewLLM (new_llm okey), NewTTS (new_tts okey),
       NewContext \<lparr>messages = initial_messages\<rparr>,
       NewContextAggregatorPair \<lparr>pair_context = \<lparr>messages = initial_messages\<rparr>\<rparr>,
       NewUserResponseAggregator, NewLLMResponseAggregator,
       NewTransport (new_transport url tok),
       NewPipeline (new_pipeline (new_transport url tok) (new_stt dkey)
                      \<lparr>pair_context = \<lparr>messages = initial_messages\<rparr>\<rparr> (new_llm okey)
                      (new_tts okey)),
       NewTask (new_task (new_pipeline (new_transport url tok) (new_stt dkey)
                      \<lparr>pair_context = \<lparr>messages = initial_messages\<rparr>\<rparr> (new_llm okey)
                      (new_tts okey))),
       RegisterHandler ''on_participant_connected'',
       RegisterHandler ''on_participant_disconnected'',
       RegisterHandler ''on_room_connected'',
       RegisterHandler ''on_room_disconnected'',
       NewRunner,
       RunnerRun (new_task (new_pipeline (new_transport url tok) (new_stt dkey)
                      \<lparr>pair_context = \<lparr>messages = initial_messages\<rparr>\<rparr> (new_llm okey)
                      (new_tts okey)))] @
        runner_run event_handlers (events script) @
        fst (except_KeyboardInterrupt (ending script)) @ [Cleanup],
      snd (except_KeyboardInterrupt (ending script)))"
  unfolding assemble_def Let_def run_and_cleanup_eq
  by (simp add: event_handlers_def)

lemma main_starts:
  assumes "starts env livekit"
  shows "main env livekit script =
     (banner env @ made env @ wired env livekit @
        runner_run event_handlers (events script) @
        fst (except_KeyboardInterrupt (ending script)) @ [Cleanup],
      snd (except_KeyboardInterrupt (ending script)))"
proof -
  from assms have r: "required_ok env" and d: "truthy (env ''DEEPGRAM_API_KEY'')"
    by (simp_all add: starts_def)
  from assms have "token_result env livekit = Inr (token_of env livekit)"
    by (simp add: starts_def token_of_def split: sum.splits)
  then have tok: "make_token livekit env (env ''LIVEKIT_API_KEY'')
      (env ''LIVEKIT_API_SECRET'')
      (getenv_default env ''LIVEKIT_PARTICIPANT_NAME'' ''assistant'')
      (getenv_default env ''LIVEKIT_ROOM'' ''default-room'') = Inr (token_of env livekit)"
    by (simp add: token_result_def)
  show ?thesis
    unfolding main_validated [OF r d] assemble_token_ok [OF tok]
    by (simp add: made_def wired_def pipeline_of_def)
qed

lemma main_token_error:
  assumes "required_ok env" and "truthy (env ''DEEPGRAM_API_KEY'')"
    and "token_result env livekit = Inl e"
  shows "main env livekit script = (banner env @ made env, Some e)"
proof -
  have tok: "make_token livekit env (env ''LIVEKIT_API_KEY'')
      (env ''LIVEKIT_API_SECRET'')
      (getenv_default env ''LIVEKIT_PARTICIPANT_NAME'' ''assistant'')
      (getenv_default env ''LIVEKIT_ROOM'' ''default-room'') = Inl e"
    using assms(3) by (simp add: token_result_def)
  show ?thesis
    by (simp add: main_validated [OF assms(1,2)] assemble_token_error [OF tok])
qed

text \<open>The room token, case by case.\<close>

lemma env_token_missing:
  "\<not> truthy (env ''LIVEKIT_TOKEN'') \<Longrightarrow>
   env_token env =
     Inl (ValueError (''LIVEKIT_TOKEN required if livekit package not installed. '' @
                      ''Install with: pip install livekit''))"
  by (cases "env ''LIVEKIT_TOKEN''") (simp_all add: env_token_def getenv_def)

lemma env_token_set: "env ''LIVEKIT_TOKEN'' = Some t \<Longrightarrow> t \<noteq> [] \<Longrightarrow> env_token env = Inr t"
  by (simp add: env_token_def getenv_def)

lemma token_result_not_installed: "token_result env NotInstalled = env_token env"
  by (simp add: token_result_def make_token_def)

lemma token_result_installed:
  "token_result env (Installed to_jwt) =
     (case to_jwt
             \<lparr>at_api_key = env ''LIVEKIT_API_KEY'', at_api_secret = env ''LIVEKIT_API_SECRET'',
              at_identity = getenv_default env ''LIVEKIT_PARTICIPANT_NAME'' ''assistant'',
              at_name = ''AI Assistant'',
              at_grants =
                Some \<lparr>room_join = True,
                      room = getenv_default env ''LIVEKIT_ROOM'' ''default-room'',
                      can_publish = True, can_subscribe = True\<rparr>\<rparr> of
        Inr jwt \<Rightarrow> Inr jwt
      | Inl ImportError \<Rightarrow> env_token env
      | Inl e \<Rightarrow> Inl e)"
  by (simp add: token_result_def make_token_def with_grants_def with_name_def
      with_identity_def new_AccessToken_def)

lemma starts_not_installed:
  assumes "required_ok env" and "truthy (env ''DEEPGRAM_API_KEY'')"
    and "env ''LIVEKIT_TOKEN'' = Some t" and "t \<noteq> []"
  shows "starts env NotInstalled" and "token_of env NotInstalled = t"
  using assms
  by (simp_all add: starts_def token_of_def token_result_not_installed env_token_set)

lemma starts_installed:
  assumes "required_ok env" and "truthy (env ''DEEPGRAM_API_KEY'')"
    and "token_result env (Installed to_jwt) = Inr jwt"
  shows "starts env (Installed to_jwt)" and "token_of env (Installed to_jwt) = jwt"
  using assms by (simp_all add: starts_def token_of_def)

lemma token_result_sample:
  "token_result env (Installed sample_to_jwt) =
     (if getenv_default env ''LIVEKIT_PARTICIPANT_NAME'' ''assistant'' = [] \<or>
         getenv_default env ''LIVEKIT_ROOM'' ''default-room'' = []
      then Inl (ValueError ''identity and room must be set when joining a room'')
      else Inr (''jwt:'' @ getenv_default env ''LIVEKIT_PARTICIPANT_NAME'' ''assistant'' @ ''@'' @
                getenv_default env ''LIVEKIT_ROOM'' ''default-room''))"
  by (simp add: token_result_installed sample_to_jwt_def)

lemma starts_sample:
  assumes "required_ok env" and "truthy (env ''DEEPGRAM_API_KEY'')"
    and "getenv_default env ''LIVEKIT_PARTICIPANT_NAME'' ''assistant'' \<noteq> []"
    and "getenv_default env ''LIVEKIT_ROOM'' ''default-room'' \<noteq> []"
  shows "starts env (Installed sample_to_jwt)"
  using assms by (simp add: starts_def token_result_sample)

lemma main_same_token:
  assumes "token_result env l1 = token_result env l2"
  shows "main env l1 script = main env l2 script"
proof (cases "required_ok env \<and> truthy (env ''DEEPGRAM_API_KEY'')")
  case False
  show ?thesis
  proof (cases "required_ok env")
    case True
    with False have "\<not> truthy (env ''DEEPGRAM_API_KEY'')" by simp
    with True show ?thesis by (simp add: main_deepgram_missing)
  next
    case False
    then show ?thesis by (simp add: main_required_missing)
  qed
next
  case True
  then have r: "required_ok env" and d: "truthy (env ''DEEPGRAM_API_KEY'')" by simp_all
  show ?thesis
  proof (cases "token_result env l2")
    case (Inl e)
    then show ?thesis
      using assms by (simp add: main_token_error [OF r d])
  next
    case (Inr tok)
    then have "starts env l1" and "starts env l2"
      and "token_of env l1 = token_of env l2"
      using assms r d by (simp_all add: starts_def token_of_def)
    then show ?thesis
      by (simp add: main_starts wired_def pipeline_of_def)
  qed
qed

section \<open>What the event handlers do\<close>

lemma dispatch_participant_connected:
  "dispatch event_handlers (ParticipantConnected p) =
     [Print (''Participant connected: '' @ identity p), QueueFrames [LLMRunFrame]]"
  by (simp add: dispatch_def event_handlers_def on_participant_connected_def)

lemma dispatch_participant_disconnected:
  "dispatch event_handlers (ParticipantDisconnected p) =
     [Print (''Participant disconnected: '' @ identity p)]"
  by (simp add: dispatch_def event_handlers_def on_participant_disconnected_def)

lemma dispatch_room_connected:
  "dispatch event_handlers (RoomConnected r) = [Print (''Bot connected to room: '' @ room_name r)]"
  by (simp add: dispatch_def event_handlers_def on_room_connected_def)

lemma dispatch_room_disconnected:
  "dispatch event_handlers (RoomDisconnected r) =
     [Print (''Bot disconnected from room: '' @ room_name r)]"
  by (simp add: dispatch_def event_handlers_def on_room_disconnected_def)

lemmas dispatch_event =
  dispatch_participant_connected dispatch_participant_disconnected
  dispatch_room_connected dispatch_room_disconnected

lemma runner_run_Nil: "runner_run table [] = []"
  by (simp add: runner_run_def)

lemma runner_run_Cons: "runner_run table (ev # evs) = dispatch table ev @ runner_run table evs"
  by (simp add: runner_run_def)

lemma dispatch_handler_actions: "list_all is_handler_action (dispatch event_handlers ev)"
  by (cases ev) (simp_all add: dispatch_event)

lemma runner_run_handler_actions: "list_all is_handler_action (runner_run event_handlers evs)"
  by (induction evs) (simp_all add: runner_run_Nil runner_run_Cons dispatch_handler_actions)

lemma except_handler_actions:
  "list_all is_handler_action (fst (except_KeyboardInterrupt e))"
  by (simp add: except_KeyboardInterrupt_def split: option.splits exn.splits)

section \<open>Observations distribute over the parts of a run\<close>

lemma pipelines_built_append:
  "pipelines_built (xs @ ys) = pipelines_built xs @ pipelines_built ys"
  by (induction xs rule: pipelines_built.induct) simp_all

lemma pipelines_built_handler_actions:
  "list_all is_handler_action xs \<Longrightarrow> pipelines_built xs = []"
  by (induction xs rule: pipelines_built.induct) simp_all

lemma tasks_built_append: "tasks_built (xs @ ys) = tasks_built xs @ tasks_built ys"
  by (induction xs rule: tasks_built.induct) simp_all

lemma tasks_built_handler_actions: "list_all is_handler_action xs \<Longrightarrow> tasks_built xs = []"
  by (induction xs rule: tasks_built.induct) simp_all

lemma tasks_run_append: "tasks_run (xs @ ys) = tasks_run xs @ tasks_run ys"
  by (induction xs rule: tasks_run.induct) simp_all

lemma tasks_run_handler_actions: "list_all is_handler_action xs \<Longrightarrow> tasks_run xs = []"
  by (induction xs rule: tasks_run.induct) simp_all

lemma transports_built_append:
  "transports_built (xs @ ys) = transports_built xs @ transports_built ys"
  by (induction xs rule: transports_built.induct) simp_all

lemma transports_built_handler_actions:
  "list_all is_handler_action xs \<Longrightarrow> transports_built xs = []"
  by (induction xs rule: transports_built.induct) simp_all

lemma contexts_built_append: "contexts_built (xs @ ys) = contexts_built xs @ contexts_built ys"
  by (induction xs rule: contexts_built.induct) simp_all

lemma contexts_built_handler_actions:
  "list_all is_handler_action xs \<Longrightarrow> contexts_built xs = []"
  by (induction xs rule: contexts_built.induct) simp_all

lemma queued_frames_append: "queued_frames (xs @ ys) = queued_frames xs @ queued_frames ys"
  by (induction xs rule: queued_frames.induct) simp_all

lemma cleanups_append: "cleanups (xs @ ys) = cleanups xs + cleanups ys"
  by (induction xs rule: cleanups.induct) simp_all

lemma cleanups_handler_actions: "list_all is_handler_action xs \<Longrightarrow> cleanups xs = 0"
  by (induction xs rule: cleanups.induct) simp_all

lemma not_starts_cases:
  assumes "\<not> starts env livekit"
  obtains "\<not> required_ok env"
  | "required_ok env" "\<not> truthy (env ''DEEPGRAM_API_KEY'')"
  | e where "required_ok env" "truthy (env ''DEEPGRAM_API_KEY'')"
      "token_result env livekit = Inl e"
  using assms by (auto simp: starts_def split: sum.splits)

section \<open>The order of the stages\<close>

lemma pipelines_built_starts:
  "starts env livekit \<Longrightarrow>
   pipelines_built (fst (main env livekit script)) = [pipeline_of env livekit]"
  by (simp add: main_starts pipelines_built_append pipelines_built_handler_actions
      runner_run_handler_actions except_handler_actions banner_def made_def wired_def)

lemma pipelines_built_not_starts:
  assumes "\<not> starts env livekit"
  shows "pipelines_built (fst (main env livekit script)) = []"
  using assms
proof (cases rule: not_starts_cases)
  case 1
  then show ?thesis by (simp add: main_required_missing)
next
  case 2
  then show ?thesis by (simp add: main_deepgram_missing banner_def)
next
  case 3
  then show ?thesis by (simp add: main_token_error banner_def made_def)
qed

lemma tasks_run_starts:
  "starts env livekit \<Longrightarrow>
   tasks_run (fst (main env livekit script)) = [new_task (pipeline_of env livekit)]"
  by (simp add: main_starts tasks_run_append tasks_run_handler_actions
      runner_run_handler_actions except_handler_actions banner_def made_def wired_def)

lemma tasks_run_not_starts:
  assumes "\<not> starts env livekit"
  shows "tasks_run (fst (main env livekit script)) = []"
  using assms
proof (cases rule: not_starts_cases)
  case 1
  then show ?thesis by (simp add: main_required_missing)
next
  case 2
  then show ?thesis by (simp add: main_deepgram_missing banner_def)
next
  case 3
  then show ?thesis by (simp add: main_token_error banner_def made_def)
qed

text \<open>
  C1. Whenever main gets as far as assembling it, it builds exactly one pipeline, whose
  stages are, in this order and with nothing else: the transport's input, the STT
  service, the user response aggregator, the user side of the context aggregator pair,
  the LLM service, the LLM response aggregator, the assistant side of the same pair,
  the TTS service, the transport's output (input and output of the same transport).
  In every other environment it builds none. The pipeline of the task the runner is
  started on is that pipeline.
\<close>

theorem pipeline_stage_order:
  "pipelines_built (fst (main env livekit script)) =
     (if starts env livekit then
        [[TransportInput (new_transport (env ''LIVEKIT_URL'') (token_of env livekit)),
          STT (new_stt (env ''DEEPGRAM_API_KEY'')),
          LLMUserResponseAggregator,
          ContextUser \<lparr>pair_context = \<lparr>messages = initial_messages\<rparr>\<rparr>,
          LLM (new_llm (env ''OPENAI_API_KEY'')),
          LLMResponseAggregator,
          ContextAssistant \<lparr>pair_context = \<lparr>messages = initial_messages\<rparr>\<rparr>,
          TTS (new_tts (env ''OPENAI_API_KEY'')),
          TransportOutput (new_transport (env ''LIVEKIT_URL'') (token_of env livekit))]]
      else []) \<and>
   map task_pipeline (tasks_run (fst (main env livekit script))) =
     pipelines_built (fst (main env livekit script))"
proof (cases "starts env livekit")
  case True
  then show ?thesis
    by (simp add: pipelines_built_starts tasks_run_starts new_task_def)
       (simp add: pipeline_of_def new_pipeline_def)
next
  case False
  then show ?thesis
    by (simp add: pipelines_built_not_starts tasks_run_not_starts)
qed

theorem pipeline_stage_order_witness:
  "pipelines_built (fst (main
      [''LIVEKIT_URL'' \<mapsto> ''wss://example.livekit.cloud'', ''LIVEKIT_API_KEY'' \<mapsto> ''key'',
       ''LIVEKIT_API_SECRET'' \<mapsto> ''secret'', ''OPENAI_API_KEY'' \<mapsto> ''sk'',
       ''DEEPGRAM_API_KEY'' \<mapsto> ''dg'', ''LIVEKIT_TOKEN'' \<mapsto> ''tok'']
      NotInstalled \<lparr>events = [ParticipantConnected \<lparr>identity = ''alice''\<rparr>], ending = None\<rparr>)) =
     [[TransportInput (new_transport (Some ''wss://example.livekit.cloud'') ''tok''),
       STT \<lparr>stt_api_key = Some ''dg''\<rparr>,
       LLMUserResponseAggregator,
       ContextUser \<lparr>pair_context = \<lparr>messages = initial_messages\<rparr>\<rparr>,
       LLM \<lparr>llm_api_key = Some ''sk'', llm_model = ''gpt-4o-mini''\<rparr>,
       LLMResponseAggregator,
       ContextAssistant \<lparr>pair_context = \<lparr>messages = initial_messages\<rparr>\<rparr>,
       TTS \<lparr>tts_api_key = Some ''sk'', tts_voice = ''alloy'', tts_model = ''tts-1''\<rparr>,
       TransportOutput (new_transport (Some ''wss://example.livekit.cloud'') ''tok'')]]"
  using pipeline_stage_order
    [of "[''LIVEKIT_URL'' \<mapsto> ''wss://example.livekit.cloud'', ''LIVEKIT_API_KEY'' \<mapsto> ''key'',
       ''LIVEKIT_API_SECRET'' \<mapsto> ''secret'', ''OPENAI_API_KEY'' \<mapsto> ''sk'',
       ''DEEPGRAM_API_KEY'' \<mapsto> ''dg'', ''LIVEKIT_TOKEN'' \<mapsto> ''tok'']"
      NotInstalled "\<lparr>events = [ParticipantConnected \<lparr>identity = ''alice''\<rparr>], ending = None\<rparr>"]
  by (simp add: starts_not_installed required_ok_def new_stt_def new_llm_def new_tts_def)

section \<open>Missing credentials\<close>

text \<open>
  C2. When one of LIVEKIT_URL, LIVEKIT_API_KEY, LIVEKIT_API_SECRET, OPENAI_API_KEY is not
  set, main raises the ValueError of its first check and has done nothing before it:
  nothing is printed, no service, transport, pipeline or task is constructed, the runner
  is never started and no frame is queued, whatever the rest of the environment, the
  livekit package and the room would have done.
\<close>

theorem missing_required_is_fatal:
  assumes "env ''LIVEKIT_URL'' = None \<or> env ''LIVEKIT_API_KEY'' = None \<or>
           env ''LIVEKIT_API_SECRET'' = None \<or> env ''OPENAI_API_KEY'' = None"
  shows "main env livekit script =
           ([], Some (ValueError
              (''Missing required environment variables: '' @
               ''LIVEKIT_URL, LIVEKIT_API_KEY, LIVEKIT_API_SECRET, OPENAI_API_KEY'')))"
proof -
  from assms have "\<not> required_ok env"
    by (auto simp: required_ok_def)
  then show ?thesis by (rule main_required_missing)
qed

theorem missing_required_is_fatal_witness:
  "main [''LIVEKIT_URL'' \<mapsto> ''wss://example.livekit.cloud'', ''LIVEKIT_API_KEY'' \<mapsto> ''key'',
         ''LIVEKIT_API_SECRET'' \<mapsto> ''secret'', ''DEEPGRAM_API_KEY'' \<mapsto> ''dg'']
        (Installed sample_to_jwt) \<lparr>events = [ParticipantConnected \<lparr>identity = ''alice''\<rparr>], ending = None\<rparr>
   = ([], Some (ValueError
        (''Missing required environment variables: '' @
         ''LIVEKIT_URL, LIVEKIT_API_KEY, LIVEKIT_API_SECRET, OPENAI_API_KEY'')))"
  by (rule missing_required_is_fatal) simp

section \<open>The Deepgram key\<close>

text \<open>
  C9, as stated, has main print the warning in every environment without
  DEEPGRAM_API_KEY. In an environment that also lacks one of the four required
  variables (here all but LIVEKIT_URL) the first check raises before anything is
  printed.
\<close>

theorem deepgram_warning_counterexample:
  "[''LIVEKIT_URL'' \<mapsto> ''wss://example.livekit.cloud''] ''DEEPGRAM_API_KEY'' = None \<and>
   Print ''Warning: DEEPGRAM_API_KEY not set. STT will not work without it.''
     \<notin> set (fst (main [''LIVEKIT_URL'' \<mapsto> ''wss://example.livekit.cloud'']
                      (Installed sample_to_jwt)
                      \<lparr>events = [], ending = None\<rparr>))"
proof -
  have "\<not> required_ok [''LIVEKIT_URL'' \<mapsto> ''wss://example.livekit.cloud'']"
    by (simp add: required_ok_def)
  then show ?thesis by (simp add: main_required_missing)
qed

text \<open>
  C9, amended. In every environment in which DEEPGRAM_API_KEY is not set, main raises a
  ValueError before any service or the pipeline is built. When the four required
  variables are set and not empty it first prints the two lines of the warning and the
  two lines about the room and the URL, and the error is the one that says the
  Deepgram key is required; otherwise the error is the one of the first check and
  nothing is printed.
\<close>

theorem deepgram_key_is_required:
  assumes "env ''DEEPGRAM_API_KEY'' = None"
  shows "main env livekit script =
     (if required_ok env then
        ([Print ''Warning: DEEPGRAM_API_KEY not set. STT will not work without it.'',
          Print ''Get your API key from: https://console.deepgram.com/'',
          Print (''Connecting to LiveKit room: '' @
                 getenv_default env ''LIVEKIT_ROOM'' ''default-room''),
          Print (''LiveKit URL: '' @ fstr (env ''LIVEKIT_URL''))],
         Some (ValueError ''DEEPGRAM_API_KEY is required for STT functionality''))
      else
        ([], Some (ValueError
           (''Missing required environment variables: '' @
            ''LIVEKIT_URL, LIVEKIT_API_KEY, LIVEKIT_API_SECRET, OPENAI_API_KEY''))))"
proof (cases "required_ok env")
  case True
  moreover have "\<not> truthy (env ''DEEPGRAM_API_KEY'')" using assms by simp
  ultimately show ?thesis by (simp add: main_deepgram_missing banner_def)
next
  case False
  then show ?thesis by (simp add: main_required_missing)
qed

theorem deepgram_key_is_required_witness:
  "main [''LIVEKIT_URL'' \<mapsto> ''wss://example.livekit.cloud'', ''LIVEKIT_API_KEY'' \<mapsto> ''key'',
         ''LIVEKIT_API_SECRET'' \<mapsto> ''secret'', ''OPENAI_API_KEY'' \<mapsto> ''sk'']
        (Installed sample_to_jwt) \<lparr>events = [ParticipantConnected \<lparr>identity = ''alice''\<rparr>], ending = None\<rparr>
   = ([Print ''Warning: DEEPGRAM_API_KEY not set. STT will not work without it.'',
       Print ''Get your API key from: https://console.deepgram.com/'',
       Print ''Connecting to LiveKit room: default-room'',
       Print ''LiveKit URL: wss://example.livekit.cloud''],
      Some (ValueError ''DEEPGRAM_API_KEY is required for STT functionality''))"
  using deepgram_key_is_required
    [of "[''LIVEKIT_URL'' \<mapsto> ''wss://example.livekit.cloud'', ''LIVEKIT_API_KEY'' \<mapsto> ''key'',
         ''LIVEKIT_API_SECRET'' \<mapsto> ''secret'', ''OPENAI_API_KEY'' \<mapsto> ''sk'']"
      "Installed sample_to_jwt" "\<lparr>events = [ParticipantConnected \<lparr>identity = ''alice''\<rparr>], ending = None\<rparr>"]
  by (simp add: required_ok_def getenv_default_def)

section \<open>The room token\<close>

lemma transports_built_starts:
  "starts env livekit \<Longrightarrow>
   transports_built (fst (main env livekit script)) =
     [new_transport (env ''LIVEKIT_URL'') (token_of env livekit)]"
  by (simp add: main_starts transports_built_append transports_built_handler_actions
      runner_run_handler_actions except_handler_actions banner_def made_def wired_def)

lemma token_error_no_transport:
  assumes "required_ok env" and "truthy (env ''DEEPGRAM_API_KEY'')"
    and "token_result env livekit = Inl e"
  shows "snd (main env livekit script) = Some e"
    and "transports_built (fst (main env livekit script)) = []"
    and "tasks_run (fst (main env livekit script)) = []"
  by (simp_all add: main_token_error [OF assms] banner_def made_def)

text \<open>
  C10, as stated, has a JWT minted whenever the livekit package is available. Only
  ImportError is caught around the minting, so with a package that refuses an access
  token without a room, as livekit-api does, and LIVEKIT_ROOM set to the empty string,
  the ValueError of the package leaves main and no transport is built.
\<close>

theorem jwt_minting_counterexample:
  "required_ok [''LIVEKIT_URL'' \<mapsto> ''wss://example.livekit.cloud'', ''LIVEKIT_API_KEY'' \<mapsto> ''key'',
       ''LIVEKIT_API_SECRET'' \<mapsto> ''secret'', ''OPENAI_API_KEY'' \<mapsto> ''sk'',
       ''DEEPGRAM_API_KEY'' \<mapsto> ''dg'', ''LIVEKIT_ROOM'' \<mapsto> []] \<and>
   truthy ([''LIVEKIT_URL'' \<mapsto> ''wss://example.livekit.cloud'', ''LIVEKIT_API_KEY'' \<mapsto> ''key'',
       ''LIVEKIT_API_SECRET'' \<mapsto> ''secret'', ''OPENAI_API_KEY'' \<mapsto> ''sk'',
       ''DEEPGRAM_API_KEY'' \<mapsto> ''dg'', ''LIVEKIT_ROOM'' \<mapsto> []] ''DEEPGRAM_API_KEY'') \<and>
   snd (main [''LIVEKIT_URL'' \<mapsto> ''wss://example.livekit.cloud'', ''LIVEKIT_API_KEY'' \<mapsto> ''key'',
       ''LIVEKIT_API_SECRET'' \<mapsto> ''secret'', ''OPENAI_API_KEY'' \<mapsto> ''sk'',
       ''DEEPGRAM_API_KEY'' \<mapsto> ''dg'', ''LIVEKIT_ROOM'' \<mapsto> []] (Installed sample_to_jwt) \<lparr>events = [], ending = None\<rparr>) =
     Some (ValueError ''identity and room must be set when joining a room'') \<and>
   transports_built (fst (main [''LIVEKIT_URL'' \<mapsto> ''wss://example.livekit.cloud'', ''LIVEKIT_API_KEY'' \<mapsto> ''key'',
       ''LIVEKIT_API_SECRET'' \<mapsto> ''secret'', ''OPENAI_API_KEY'' \<mapsto> ''sk'',
       ''DEEPGRAM_API_KEY'' \<mapsto> ''dg'', ''LIVEKIT_ROOM'' \<mapsto> []] (Installed sample_to_jwt) \<lparr>events = [], ending = None\<rparr>)) = []"
proof -
  have r: "required_ok [''LIVEKIT_URL'' \<mapsto> ''wss://example.livekit.cloud'', ''LIVEKIT_API_KEY'' \<mapsto> ''key'',
       ''LIVEKIT_API_SECRET'' \<mapsto> ''secret'', ''OPENAI_API_KEY'' \<mapsto> ''sk'',
       ''DEEPGRAM_API_KEY'' \<mapsto> ''dg'', ''LIVEKIT_ROOM'' \<mapsto> []]"
    by (simp add: required_ok_def)
  have d: "truthy ([''LIVEKIT_URL'' \<mapsto> ''wss://example.livekit.cloud'', ''LIVEKIT_API_KEY'' \<mapsto> ''key'',
       ''LIVEKIT_API_SECRET'' \<mapsto> ''secret'', ''OPENAI_API_KEY'' \<mapsto> ''sk'',
       ''DEEPGRAM_API_KEY'' \<mapsto> ''dg'', ''LIVEKIT_ROOM'' \<mapsto> []] ''DEEPGRAM_API_KEY'')"
    by simp
  have t: "token_result [''LIVEKIT_URL'' \<mapsto> ''wss://example.livekit.cloud'', ''LIVEKIT_API_KEY'' \<mapsto> ''key'',
       ''LIVEKIT_API_SECRET'' \<mapsto> ''secret'', ''OPENAI_API_KEY'' \<mapsto> ''sk'',
       ''DEEPGRAM_API_KEY'' \<mapsto> ''dg'', ''LIVEKIT_ROOM'' \<mapsto> []] (Installed sample_to_jwt) =
      Inl (ValueError ''identity and room must be set when joining a room'')"
    by (simp add: token_result_sample getenv_default_def)
  show ?thesis
    using r d by (simp add: main_token_error [OF r d t] banner_def made_def)
qed

text \<open>
  C10, amended. Once the environment has passed both checks: when the livekit package
  cannot be imported and LIVEKIT_TOKEN is not set, main raises a ValueError and neither
  a transport is built nor the runner started; when it cannot be imported and
  LIVEKIT_TOKEN holds a string that is not empty, the transport's token is that string
  as it is. When the package can be imported, it is asked for the JWT of an access
  token made from the API key and secret, with the participant's name as identity, the
  name AI Assistant and the grants room_join, can_publish and can_subscribe for the
  configured room: if it returns a JWT, that is the transport's token; if it raises
  anything but ImportError, the exception leaves main and neither a transport is built
  nor the runner started; if it raises ImportError, main goes on as it does without the
  package.
\<close>

theorem room_token_source:
  assumes "required_ok env" and "truthy (env ''DEEPGRAM_API_KEY'')"
  shows
    "(env ''LIVEKIT_TOKEN'' = None \<longrightarrow>
        snd (main env NotInstalled script) = Some (ValueError (''LIVEKIT_TOKEN required if livekit package not installed. '' @
                            ''Install with: pip install livekit'')) \<and>
        transports_built (fst (main env NotInstalled script)) = [] \<and>
        tasks_run (fst (main env NotInstalled script)) = []) \<and>
     (env ''LIVEKIT_TOKEN'' = Some t \<and> t \<noteq> [] \<longrightarrow>
        map room_token (transports_built (fst (main env NotInstalled script))) = [t]) \<and>
     (to_jwt \<lparr>at_api_key = env ''LIVEKIT_API_KEY'',
                 at_api_secret = env ''LIVEKIT_API_SECRET'',
                 at_identity = getenv_default env ''LIVEKIT_PARTICIPANT_NAME'' ''assistant'',
                 at_name = ''AI Assistant'',
                 at_grants =
                   Some \<lparr>room_join = True,
                         room = getenv_default env ''LIVEKIT_ROOM'' ''default-room'',
                         can_publish = True, can_subscribe = True\<rparr>\<rparr> = Inr jwt \<longrightarrow>
        map room_token (transports_built (fst (main env (Installed to_jwt) script))) = [jwt]) \<and>
     (to_jwt \<lparr>at_api_key = env ''LIVEKIT_API_KEY'',
                 at_api_secret = env ''LIVEKIT_API_SECRET'',
                 at_identity = getenv_default env ''LIVEKIT_PARTICIPANT_NAME'' ''assistant'',
                 at_name = ''AI Assistant'',
                 at_grants =
                   Some \<lparr>room_join = True,
                         room = getenv_default env ''LIVEKIT_ROOM'' ''default-room'',
                         can_publish = True, can_subscribe = True\<rparr>\<rparr> = Inl e \<and> e \<noteq> ImportError \<longrightarrow>
        snd (main env (Installed to_jwt) script) = Some e \<and>
        transports_built (fst (main env (Installed to_jwt) script)) = [] \<and>
        tasks_run (fst (main env (Installed to_jwt) script)) = []) \<and>
     (to_jwt \<lparr>at_api_key = env ''LIVEKIT_API_KEY'',
                 at_api_secret = env ''LIVEKIT_API_SECRET'',
                 at_identity = getenv_default env ''LIVEKIT_PARTICIPANT_NAME'' ''assistant'',
                 at_name = ''AI Assistant'',
                 at_grants =
                   Some \<lparr>room_join = True,
                         room = getenv_default env ''LIVEKIT_ROOM'' ''default-room'',
                         can_publish = True, can_subscribe = True\<rparr>\<rparr> = Inl ImportError \<longrightarrow>
        main env (Installed to_jwt) script = main env NotInstalled script)"
proof (intro conjI impI)
  assume "env ''LIVEKIT_TOKEN'' = None"
  then have t: "token_result env NotInstalled = Inl (ValueError
      (''LIVEKIT_TOKEN required if livekit package not installed. '' @
       ''Install with: pip install livekit''))"
    by (simp add: token_result_not_installed env_token_missing)
  show "snd (main env NotInstalled script) = Some (ValueError (''LIVEKIT_TOKEN required if livekit package not installed. '' @
                            ''Install with: pip install livekit''))"
    by (simp add: token_error_no_transport [OF assms t])
  show "transports_built (fst (main env NotInstalled script)) = []"
    by (rule token_error_no_transport [OF assms t])
  show "tasks_run (fst (main env NotInstalled script)) = []"
    by (rule token_error_no_transport [OF assms t])
next
  assume a: "env ''LIVEKIT_TOKEN'' = Some t \<and> t \<noteq> []"
  then have "starts env NotInstalled" and "token_of env NotInstalled = t"
    using assms by (simp_all add: starts_not_installed)
  then show "map room_token (transports_built (fst (main env NotInstalled script))) = [t]"
    by (simp add: transports_built_starts new_transport_def)
next
  assume "to_jwt \<lparr>at_api_key = env ''LIVEKIT_API_KEY'',
                 at_api_secret = env ''LIVEKIT_API_SECRET'',
                 at_identity = getenv_default env ''LIVEKIT_PARTICIPANT_NAME'' ''assistant'',
                 at_name = ''AI Assistant'',
                 at_grants =
                   Some \<lparr>room_join = True,
                         room = getenv_default env ''LIVEKIT_ROOM'' ''default-room'',
                         can_publish = True, can_subscribe = True\<rparr>\<rparr> = Inr jwt"
  then have "token_result env (Installed to_jwt) = Inr jwt"
    by (simp add: token_result_installed)
  then have "starts env (Installed to_jwt)" and "token_of env (Installed to_jwt) = jwt"
    using assms by (simp_all add: starts_installed)
  then show "map room_token (transports_built (fst (main env (Installed to_jwt) script))) = [jwt]"
    by (simp add: transports_built_starts new_transport_def)
next
  assume a: "to_jwt \<lparr>at_api_key = env ''LIVEKIT_API_KEY'',
                 at_api_secret = env ''LIVEKIT_API_SECRET'',
                 at_identity = getenv_default env ''LIVEKIT_PARTICIPANT_NAME'' ''assistant'',
                 at_name = ''AI Assistant'',
                 at_grants =
                   Some \<lparr>room_join = True,
                         room = getenv_default env ''LIVEKIT_ROOM'' ''default-room'',
                         can_publish = True, can_subscribe = True\<rparr>\<rparr> = Inl e \<and> e \<noteq> ImportError"
  then have t: "token_result env (Installed to_jwt) = Inl e"
    by (cases e) (simp_all add: token_result_installed)
  show "snd (main env (Installed to_jwt) script) = Some e"
    by (rule token_error_no_transport [OF assms t])
  show "transports_built (fst (main env (Installed to_jwt) script)) = []"
    by (rule token_error_no_transport [OF assms t])
  show "tasks_run (fst (main env (Installed to_jwt) script)) = []"
    by (rule token_error_no_transport [OF assms t])
next
  assume "to_jwt \<lparr>at_api_key = env ''LIVEKIT_API_KEY'',
                 at_api_secret = env ''LIVEKIT_API_SECRET'',
                 at_identity = getenv_default env ''LIVEKIT_PARTICIPANT_NAME'' ''assistant'',
                 at_name = ''AI Assistant'',
                 at_grants =
                   Some \<lparr>room_join = True,
                         room = getenv_default env ''LIVEKIT_ROOM'' ''default-room'',
                         can_publish = True, can_subscribe = True\<rparr>\<rparr> = Inl ImportError"
  then have "token_result env (Installed to_jwt) = token_result env NotInstalled"
    by (simp add: token_result_installed token_result_not_installed)
  then show "main env (Installed to_jwt) script = main env NotInstalled script"
    by (rule main_same_token)
qed

theorem room_token_source_witness:
  "snd (main [''LIVEKIT_URL'' \<mapsto> ''wss://example.livekit.cloud'', ''LIVEKIT_API_KEY'' \<mapsto> ''key'',
       ''LIVEKIT_API_SECRET'' \<mapsto> ''secret'', ''OPENAI_API_KEY'' \<mapsto> ''sk'',
       ''DEEPGRAM_API_KEY'' \<mapsto> ''dg''] NotInstalled \<lparr>events = [], ending = None\<rparr>) = Some (ValueError (''LIVEKIT_TOKEN required if livekit package not installed. '' @
                            ''Install with: pip install livekit'')) \<and>
   map room_token (transports_built (fst (main [''LIVEKIT_URL'' \<mapsto> ''wss://example.livekit.cloud'', ''LIVEKIT_API_KEY'' \<mapsto> ''key'',
       ''LIVEKIT_API_SECRET'' \<mapsto> ''secret'', ''OPENAI_API_KEY'' \<mapsto> ''sk'',
       ''DEEPGRAM_API_KEY'' \<mapsto> ''dg'', ''LIVEKIT_TOKEN'' \<mapsto> ''tok''] NotInstalled \<lparr>events = [], ending = None\<rparr>))) = [''tok''] \<and>
   map room_token (transports_built (fst (main [''LIVEKIT_URL'' \<mapsto> ''wss://example.livekit.cloud'', ''LIVEKIT_API_KEY'' \<mapsto> ''key'',
       ''LIVEKIT_API_SECRET'' \<mapsto> ''secret'', ''OPENAI_API_KEY'' \<mapsto> ''sk'',
       ''DEEPGRAM_API_KEY'' \<mapsto> ''dg'', ''LIVEKIT_ROOM'' \<mapsto> ''lobby''] (Installed sample_to_jwt) \<lparr>events = [], ending = None\<rparr>))) =
     [''jwt:assistant@lobby''] \<and>
   snd (main [''LIVEKIT_URL'' \<mapsto> ''wss://example.livekit.cloud'', ''LIVEKIT_API_KEY'' \<mapsto> ''key'',
       ''LIVEKIT_API_SECRET'' \<mapsto> ''secret'', ''OPENAI_API_KEY'' \<mapsto> ''sk'',
       ''DEEPGRAM_API_KEY'' \<mapsto> ''dg'', ''LIVEKIT_PARTICIPANT_NAME'' \<mapsto> []] (Installed sample_to_jwt) \<lparr>events = [], ending = None\<rparr>) =
     Some (ValueError ''identity and room must be set when joining a room'') \<and>
   main [''LIVEKIT_URL'' \<mapsto> ''wss://example.livekit.cloud'', ''LIVEKIT_API_KEY'' \<mapsto> ''key'',
       ''LIVEKIT_API_SECRET'' \<mapsto> ''secret'', ''OPENAI_API_KEY'' \<mapsto> ''sk'',
       ''DEEPGRAM_API_KEY'' \<mapsto> ''dg'', ''LIVEKIT_TOKEN'' \<mapsto> ''tok''] (Installed (\<lambda>t. Inl ImportError)) \<lparr>events = [], ending = None\<rparr> = main [''LIVEKIT_URL'' \<mapsto> ''wss://example.livekit.cloud'', ''LIVEKIT_API_KEY'' \<mapsto> ''key'',
       ''LIVEKIT_API_SECRET'' \<mapsto> ''secret'', ''OPENAI_API_KEY'' \<mapsto> ''sk'',
       ''DEEPGRAM_API_KEY'' \<mapsto> ''dg'', ''LIVEKIT_TOKEN'' \<mapsto> ''tok''] NotInstalled \<lparr>events = [], ending = None\<rparr>"
  using
    room_token_source
      [where env = "[''LIVEKIT_URL'' \<mapsto> ''wss://example.livekit.cloud'', ''LIVEKIT_API_KEY'' \<mapsto> ''key'',
       ''LIVEKIT_API_SECRET'' \<mapsto> ''secret'', ''OPENAI_API_KEY'' \<mapsto> ''sk'',
       ''DEEPGRAM_API_KEY'' \<mapsto> ''dg'']" and script = "\<lparr>events = [], ending = None\<rparr>" and t = "''tok''"
         and to_jwt = sample_to_jwt and jwt = "''jwt:assistant@default-room''"
         and e = "ImportError"]
    room_token_source
      [where env = "[''LIVEKIT_URL'' \<mapsto> ''wss://example.livekit.cloud'', ''LIVEKIT_API_KEY'' \<mapsto> ''key'',
       ''LIVEKIT_API_SECRET'' \<mapsto> ''secret'', ''OPENAI_API_KEY'' \<mapsto> ''sk'',
       ''DEEPGRAM_API_KEY'' \<mapsto> ''dg'', ''LIVEKIT_TOKEN'' \<mapsto> ''tok'']" and script = "\<lparr>events = [], ending = None\<rparr>" and t = "''tok''"
         and to_jwt = "\<lambda>t. Inl ImportError" and jwt = "''jwt''" and e = "ImportError"]
    room_token_source
      [where env = "[''LIVEKIT_URL'' \<mapsto> ''wss://example.livekit.cloud'', ''LIVEKIT_API_KEY'' \<mapsto> ''key'',
       ''LIVEKIT_API_SECRET'' \<mapsto> ''secret'', ''OPENAI_API_KEY'' \<mapsto> ''sk'',
       ''DEEPGRAM_API_KEY'' \<mapsto> ''dg'', ''LIVEKIT_ROOM'' \<mapsto> ''lobby'']" and script = "\<lparr>events = [], ending = None\<rparr>" and t = "''tok''"
         and to_jwt = sample_to_jwt and jwt = "''jwt:assistant@lobby''"
         and e = "ImportError"]
    room_token_source
      [where env = "[''LIVEKIT_URL'' \<mapsto> ''wss://example.livekit.cloud'', ''LIVEKIT_API_KEY'' \<mapsto> ''key'',
       ''LIVEKIT_API_SECRET'' \<mapsto> ''secret'', ''OPENAI_API_KEY'' \<mapsto> ''sk'',
       ''DEEPGRAM_API_KEY'' \<mapsto> ''dg'', ''LIVEKIT_PARTICIPANT_NAME'' \<mapsto> []]" and script = "\<lparr>events = [], ending = None\<rparr>" and t = "''tok''"
         and to_jwt = sample_to_jwt and jwt = "''jwt''"
         and e = "ValueError ''identity and room must be set when joining a room''"]
  by (simp add: required_ok_def getenv_default_def sample_to_jwt_def)

section \<open>Interruptions\<close>

lemma tasks_built_starts:
  "starts env livekit \<Longrightarrow>
   tasks_built (fst (main env livekit script)) = [new_task (pipeline_of env livekit)]"
  by (simp add: main_starts tasks_built_append tasks_built_handler_actions
      runner_run_handler_actions except_handler_actions banner_def made_def wired_def)

lemma tasks_built_not_starts:
  assumes "\<not> starts env livekit"
  shows "tasks_built (fst (main env livekit script)) = []"
  using assms
proof (cases rule: not_starts_cases)
  case 1
  then show ?thesis by (simp add: main_required_missing)
next
  case 2
  then show ?thesis by (simp add: main_deepgram_missing banner_def)
next
  case 3
  then show ?thesis by (simp add: main_token_error banner_def made_def)
qed

text \<open>
  C6. Every task main creates (exactly one when startup succeeds, none otherwise) has
  allow_interruptions true (and enable_metrics true); so the turn-taking machine of the
  spec, given the task's flag, goes from AssistantSpeaking to UserSpeaking on
  SpeechStarted and emits the interruption at once instead of queuing it.
\<close>

theorem interruptions_allowed:
  "map task_params (tasks_built (fst (main env livekit script))) =
     (if starts env livekit
      then [\<lparr>allow_interruptions = True, enable_metrics = True\<rparr>] else []) \<and>
   (\<forall>t \<in> set (tasks_built (fst (main env livekit script))).
      allow_interruptions (task_params t) \<and>
      speech_started (allow_interruptions (task_params t)) AssistantSpeaking =
        (UserSpeaking, ControlInterrupt))"
proof (cases "starts env livekit")
  case True
  then show ?thesis by (simp add: tasks_built_starts new_task_def)
next
  case False
  then show ?thesis by (simp add: tasks_built_not_starts)
qed

theorem interruptions_allowed_witness:
  "map task_params (tasks_built (fst (main
      [''LIVEKIT_URL'' \<mapsto> ''wss://example.livekit.cloud'', ''LIVEKIT_API_KEY'' \<mapsto> ''key'',
       ''LIVEKIT_API_SECRET'' \<mapsto> ''secret'', ''OPENAI_API_KEY'' \<mapsto> ''sk'',
       ''DEEPGRAM_API_KEY'' \<mapsto> ''dg'']
      (Installed sample_to_jwt) \<lparr>events = [], ending = None\<rparr>))) =
     [\<lparr>allow_interruptions = True, enable_metrics = True\<rparr>] \<and>
   list_all (\<lambda>t. speech_started (allow_interruptions (task_params t)) AssistantSpeaking =
                   (UserSpeaking, ControlInterrupt))
     (tasks_built (fst (main
      [''LIVEKIT_URL'' \<mapsto> ''wss://example.livekit.cloud'', ''LIVEKIT_API_KEY'' \<mapsto> ''key'',
       ''LIVEKIT_API_SECRET'' \<mapsto> ''secret'', ''OPENAI_API_KEY'' \<mapsto> ''sk'',
       ''DEEPGRAM_API_KEY'' \<mapsto> ''dg'']
      (Installed sample_to_jwt) \<lparr>events = [], ending = None\<rparr>)))"
  using interruptions_allowed
    [of "[''LIVEKIT_URL'' \<mapsto> ''wss://example.livekit.cloud'', ''LIVEKIT_API_KEY'' \<mapsto> ''key'',
       ''LIVEKIT_API_SECRET'' \<mapsto> ''secret'', ''OPENAI_API_KEY'' \<mapsto> ''sk'',
       ''DEEPGRAM_API_KEY'' \<mapsto> ''dg'']" "Installed sample_to_jwt" "\<lparr>events = [], ending = None\<rparr>"]
  by (simp add: starts_sample required_ok_def getenv_default_def list_all_iff)

section \<open>The begin-conversation trigger\<close>

lemma queued_frames_dispatch:
  "queued_frames (dispatch event_handlers ev) =
     (if is_participant_connected ev then [LLMRunFrame] else [])"
  by (cases ev) (simp_all add: dispatch_event)

lemma queued_frames_runner_run:
  "queued_frames (runner_run event_handlers evs) =
     replicate (length (filter is_participant_connected evs)) LLMRunFrame"
  by (induction evs)
     (simp_all add: runner_run_Nil runner_run_Cons queued_frames_append queued_frames_dispatch)

lemma queued_frames_except: "queued_frames (fst (except_KeyboardInterrupt e)) = []"
  by (simp add: except_KeyboardInterrupt_def split: option.splits exn.splits)

lemma queued_frames_starts:
  "starts env livekit \<Longrightarrow>
   queued_frames (fst (main env livekit script)) =
     replicate (length (filter is_participant_connected (events script))) LLMRunFrame"
  by (simp add: main_starts queued_frames_append queued_frames_runner_run queued_frames_except
      banner_def made_def wired_def)

lemma queued_frames_not_starts:
  assumes "\<not> starts env livekit"
  shows "queued_frames (fst (main env livekit script)) = []"
  using assms
proof (cases rule: not_starts_cases)
  case 1
  then show ?thesis by (simp add: main_required_missing)
next
  case 2
  then show ?thesis by (simp add: main_deepgram_missing banner_def)
next
  case 3
  then show ?thesis by (simp add: main_token_error banner_def made_def)
qed

text \<open>
  C7. The handler of participant-connected queues exactly one LLMRunFrame into the
  task; the handlers of participant-disconnected, room-connected and room-disconnected
  queue nothing. So does the dispatch of each event over the handlers main registers,
  and the frames queued in a whole run of main are one LLMRunFrame per
  participant-connected event of the run (none when main does not get to the run).
\<close>

theorem participant_connected_queues_one_run_frame:
  "queued_frames (on_participant_connected p) = [LLMRunFrame] \<and>
   queued_frames (on_participant_disconnected p) = [] \<and>
   queued_frames (on_room_connected r) = [] \<and>
   queued_frames (on_room_disconnected r) = [] \<and>
   queued_frames (dispatch event_handlers ev) =
     (if is_participant_connected ev then [LLMRunFrame] else []) \<and>
   queued_frames (fst (main env livekit script)) =
     (if starts env livekit
      then replicate (length (filter is_participant_connected (events script))) LLMRunFrame
      else [])"
  by (simp add: queued_frames_dispatch queued_frames_starts queued_frames_not_starts
      on_participant_connected_def on_participant_disconnected_def on_room_connected_def
      on_room_disconnected_def)

theorem participant_connected_queues_one_run_frame_witness:
  "queued_frames (fst (main
      [''LIVEKIT_URL'' \<mapsto> ''wss://example.livekit.cloud'', ''LIVEKIT_API_KEY'' \<mapsto> ''key'',
       ''LIVEKIT_API_SECRET'' \<mapsto> ''secret'', ''OPENAI_API_KEY'' \<mapsto> ''sk'',
       ''DEEPGRAM_API_KEY'' \<mapsto> ''dg'']
      (Installed sample_to_jwt)
      \<lparr>events = [RoomConnected \<lparr>room_name = ''lobby''\<rparr>,
                  ParticipantConnected \<lparr>identity = ''alice''\<rparr>,
                  ParticipantConnected \<lparr>identity = ''bob''\<rparr>,
                  ParticipantDisconnected \<lparr>identity = ''alice''\<rparr>,
                  RoomDisconnected \<lparr>room_name = ''lobby''\<rparr>],
        ending = None\<rparr>)) = [LLMRunFrame, LLMRunFrame]"
  using participant_connected_queues_one_run_frame
    [of _ _ _ "[''LIVEKIT_URL'' \<mapsto> ''wss://example.livekit.cloud'', ''LIVEKIT_API_KEY'' \<mapsto> ''key'',
       ''LIVEKIT_API_SECRET'' \<mapsto> ''secret'', ''OPENAI_API_KEY'' \<mapsto> ''sk'',
       ''DEEPGRAM_API_KEY'' \<mapsto> ''dg'']" "Installed sample_to_jwt"
      "\<lparr>events = [RoomConnected \<lparr>room_name = ''lobby''\<rparr>,
                  ParticipantConnected \<lparr>identity = ''alice''\<rparr>,
                  ParticipantConnected \<lparr>identity = ''bob''\<rparr>,
                  ParticipantDisconnected \<lparr>identity = ''alice''\<rparr>,
                  RoomDisconnected \<lparr>room_name = ''lobby''\<rparr>],
        ending = None\<rparr>"]
  by (simp add: starts_sample required_ok_def getenv_default_def numeral_2_eq_2)

section \<open>Shutdown\<close>

text \<open>
  C8. In a run that gets to the runner: a KeyboardInterrupt raised by the run does not
  leave main (main returns normally, as it does when the run completes), any other
  exception of the run does leave main, and on each of these paths
  \<^verbatim>\<open>transport.cleanup()\<close> is called exactly once, as the last action, after the runner
  was started on the task.
\<close>

theorem interrupt_is_caught_and_cleanup_runs:
  assumes "starts env livekit"
  shows
    "(ending script = Some KeyboardInterrupt \<longrightarrow> snd (main env livekit script) = None) \<and>
     (ending script = None \<longrightarrow> snd (main env livekit script) = None) \<and>
     (\<forall>e. ending script = Some e \<and> e \<noteq> KeyboardInterrupt \<longrightarrow>
          snd (main env livekit script) = Some e) \<and>
     (\<exists>before. fst (main env livekit script) = before @ [Cleanup] \<and>
          cleanups before = 0 \<and>
          tasks_run before = [new_task (pipeline_of env livekit)])"
proof (intro conjI impI allI)
  assume "ending script = Some KeyboardInterrupt"
  then show "snd (main env livekit script) = None"
    by (simp add: main_starts [OF assms] except_KeyboardInterrupt_def)
next
  assume "ending script = None"
  then show "snd (main env livekit script) = None"
    by (simp add: main_starts [OF assms] except_KeyboardInterrupt_def)
next
  fix e
  assume "ending script = Some e \<and> e \<noteq> KeyboardInterrupt"
  then show "snd (main env livekit script) = Some e"
    by (cases e) (simp_all add: main_starts [OF assms] except_KeyboardInterrupt_def)
next
  let ?before = "banner env @ made env @ wired env livekit @
        runner_run event_handlers (events script) @
        fst (except_KeyboardInterrupt (ending script))"
  have "fst (main env livekit script) = ?before @ [Cleanup]"
    by (simp add: main_starts [OF assms])
  moreover have "cleanups ?before = 0"
    by (simp add: cleanups_append cleanups_handler_actions runner_run_handler_actions
        except_handler_actions banner_def made_def wired_def)
  moreover have "tasks_run ?before = [new_task (pipeline_of env livekit)]"
    by (simp add: tasks_run_append tasks_run_handler_actions runner_run_handler_actions
        except_handler_actions banner_def made_def wired_def)
  ultimately show "\<exists>before. fst (main env livekit script) = before @ [Cleanup] \<and>
          cleanups before = 0 \<and>
          tasks_run before = [new_task (pipeline_of env livekit)]"
    by blast
qed

theorem interrupt_is_caught_and_cleanup_runs_witness:
  "snd (main [''LIVEKIT_URL'' \<mapsto> ''wss://example.livekit.cloud'', ''LIVEKIT_API_KEY'' \<mapsto> ''key'',
              ''LIVEKIT_API_SECRET'' \<mapsto> ''secret'', ''OPENAI_API_KEY'' \<mapsto> ''sk'',
              ''DEEPGRAM_API_KEY'' \<mapsto> ''dg'']
             (Installed sample_to_jwt) \<lparr>events = [ParticipantConnected \<lparr>identity = ''alice''\<rparr>],
                   ending = Some KeyboardInterrupt\<rparr>) = None \<and>
   (\<exists>before. fst (main [''LIVEKIT_URL'' \<mapsto> ''wss://example.livekit.cloud'',
                         ''LIVEKIT_API_KEY'' \<mapsto> ''key'',
                         ''LIVEKIT_API_SECRET'' \<mapsto> ''secret'', ''OPENAI_API_KEY'' \<mapsto> ''sk'',
                         ''DEEPGRAM_API_KEY'' \<mapsto> ''dg'']
                        (Installed sample_to_jwt) \<lparr>events = [ParticipantConnected \<lparr>identity = ''alice''\<rparr>],
                              ending = Some KeyboardInterrupt\<rparr>) = before @ [Cleanup] \<and>
              cleanups before = 0)"
proof -
  have s: "starts [''LIVEKIT_URL'' \<mapsto> ''wss://example.livekit.cloud'', ''LIVEKIT_API_KEY'' \<mapsto> ''key'',
              ''LIVEKIT_API_SECRET'' \<mapsto> ''secret'', ''OPENAI_API_KEY'' \<mapsto> ''sk'',
              ''DEEPGRAM_API_KEY'' \<mapsto> ''dg''] (Installed sample_to_jwt)"
    by (simp add: starts_sample required_ok_def getenv_default_def)
  show ?thesis
    using interrupt_is_caught_and_cleanup_runs
      [OF s, of "\<lparr>events = [ParticipantConnected \<lparr>identity = ''alice''\<rparr>],
                   ending = Some KeyboardInterrupt\<rparr>"]
    by auto
qed

section \<open>The conversation context\<close>

lemma contexts_built_starts:
  "starts env livekit \<Longrightarrow>
   contexts_built (fst (main env livekit script)) = [\<lparr>messages = initial_messages\<rparr>]"
  by (simp add: main_starts contexts_built_append contexts_built_handler_actions
      runner_run_handler_actions except_handler_actions banner_def made_def wired_def)

lemma contexts_built_main:
  "contexts_built (fst (main env livekit script)) =
     (if required_ok env \<and> truthy (env ''DEEPGRAM_API_KEY'')
      then [\<lparr>messages = initial_messages\<rparr>] else [])"
proof (cases "starts env livekit")
  case True
  then show ?thesis by (simp add: contexts_built_starts) (simp add: starts_def)
next
  case False
  then show ?thesis
  proof (cases rule: not_starts_cases)
    case 1
    then show ?thesis by (simp add: main_required_missing)
  next
    case 2
    then show ?thesis by (simp add: main_deepgram_missing banner_def)
  next
    case 3
    then show ?thesis by (simp add: main_token_error banner_def made_def)
  qed
qed

lemma pipelines_built_main:
  "pipelines_built (fst (main env livekit script)) =
     (if starts env livekit then [pipeline_of env livekit] else [])"
  by (simp add: pipelines_built_starts pipelines_built_not_starts)

lemma messages_write_turn: "messages (write_turn ctx t) = messages ctx @ [turn_message t]"
  by (cases t) (simp_all add: appendUser_def appendAssistant_def)

lemma messages_after_turns:
  "messages (after_turns ctx turns) = messages ctx @ map turn_message turns"
  unfolding after_turns_def
  by (induction turns arbitrary: ctx) (simp_all add: messages_write_turn)

text \<open>
  C5. The context main constructs (one, as soon as the environment has passed both
  checks) holds exactly one message, of role system. In the one pipeline main builds
  when it starts, the user side of the pair over this context stands right after the
  user response aggregator, the assistant side of the same pair right after the LLM
  response aggregator, and these two are the only views of a context among the stages.
  Under the two write entry points of the spec, after any sequence of finalized turns
  the snapshot of that context is the system message followed by the turns' messages
  in the order they were appended, and a later snapshot extends an earlier one at its
  end: nothing is reordered or deleted.
\<close>

theorem context_is_append_only:
  "snapshot \<lparr>messages = initial_messages\<rparr> = [\<lparr>role = ''system'',
         content =
           ''You are a helpful and friendly assistant. '' @
           ''Keep your responses concise and natural for voice conversation. '' @
           ''Respond in a conversational, friendly tone.''\<rparr>] \<and>
   contexts_built (fst (main env livekit script)) =
     (if required_ok env \<and> truthy (env ''DEEPGRAM_API_KEY'')
      then [\<lparr>messages = initial_messages\<rparr>] else []) \<and>
   map (\<lambda>p. take 2 (drop 2 p)) (pipelines_built (fst (main env livekit script))) =
     (if starts env livekit
      then [[LLMUserResponseAggregator, ContextUser \<lparr>pair_context = \<lparr>messages = initial_messages\<rparr>\<rparr>]]
      else []) \<and>
   map (\<lambda>p. take 2 (drop 5 p)) (pipelines_built (fst (main env livekit script))) =
     (if starts env livekit
      then [[LLMResponseAggregator, ContextAssistant \<lparr>pair_context = \<lparr>messages = initial_messages\<rparr>\<rparr>]]
      else []) \<and>
   map (filter is_context_view) (pipelines_built (fst (main env livekit script))) =
     (if starts env livekit
      then [[ContextUser \<lparr>pair_context = \<lparr>messages = initial_messages\<rparr>\<rparr>, ContextAssistant \<lparr>pair_context = \<lparr>messages = initial_messages\<rparr>\<rparr>]]
      else []) \<and>
   (\<forall>c \<in> set (contexts_built (fst (main env livekit script))).
      snapshot (after_turns c turns) = \<lparr>role = ''system'',
         content =
           ''You are a helpful and friendly assistant. '' @
           ''Keep your responses concise and natural for voice conversation. '' @
           ''Respond in a conversational, friendly tone.''\<rparr> # map turn_message turns \<and>
      snapshot (after_turns c (turns @ later)) =
        snapshot (after_turns c turns) @ map turn_message later)"
proof (intro conjI)
  show "snapshot \<lparr>messages = initial_messages\<rparr> = [\<lparr>role = ''system'',
         content =
           ''You are a helpful and friendly assistant. '' @
           ''Keep your responses concise and natural for voice conversation. '' @
           ''Respond in a conversational, friendly tone.''\<rparr>]"
    by (simp add: snapshot_def initial_messages_def)
  show "contexts_built (fst (main env livekit script)) =
     (if required_ok env \<and> truthy (env ''DEEPGRAM_API_KEY'')
      then [\<lparr>messages = initial_messages\<rparr>] else [])"
    by (rule contexts_built_main)
  show "map (\<lambda>p. take 2 (drop 2 p)) (pipelines_built (fst (main env livekit script))) =
     (if starts env livekit
      then [[LLMUserResponseAggregator, ContextUser \<lparr>pair_context = \<lparr>messages = initial_messages\<rparr>\<rparr>]]
      else [])"
    by (simp add: pipelines_built_main pipeline_of_def new_pipeline_def)
  show "map (\<lambda>p. take 2 (drop 5 p)) (pipelines_built (fst (main env livekit script))) =
     (if starts env livekit
      then [[LLMResponseAggregator, ContextAssistant \<lparr>pair_context = \<lparr>messages = initial_messages\<rparr>\<rparr>]]
      else [])"
    by (simp add: pipelines_built_main pipeline_of_def new_pipeline_def)
  show "map (filter is_context_view) (pipelines_built (fst (main env livekit script))) =
     (if starts env livekit
      then [[ContextUser \<lparr>pair_context = \<lparr>messages = initial_messages\<rparr>\<rparr>, ContextAssistant \<lparr>pair_context = \<lparr>messages = initial_messages\<rparr>\<rparr>]]
      else [])"
    by (simp add: pipelines_built_main pipeline_of_def new_pipeline_def)
  show "\<forall>c \<in> set (contexts_built (fst (main env livekit script))).
      snapshot (after_turns c turns) = \<lparr>role = ''system'',
         content =
           ''You are a helpful and friendly assistant. '' @
           ''Keep your responses concise and natural for voice conversation. '' @
           ''Respond in a conversational, friendly tone.''\<rparr> # map turn_message turns \<and>
      snapshot (after_turns c (turns @ later)) =
        snapshot (after_turns c turns) @ map turn_message later"
    by (simp add: contexts_built_main snapshot_def messages_after_turns initial_messages_def)
qed

theorem context_is_append_only_witness:
  "contexts_built (fst (main [''LIVEKIT_URL'' \<mapsto> ''wss://example.livekit.cloud'', ''LIVEKIT_API_KEY'' \<mapsto> ''key'',
       ''LIVEKIT_API_SECRET'' \<mapsto> ''secret'', ''OPENAI_API_KEY'' \<mapsto> ''sk'',
       ''DEEPGRAM_API_KEY'' \<mapsto> ''dg'', ''LIVEKIT_TOKEN'' \<mapsto> ''tok''] NotInstalled \<lparr>events = [], ending = None\<rparr>)) = [\<lparr>messages = initial_messages\<rparr>] \<and>
   map (\<lambda>p. take 2 (drop 2 p)) (pipelines_built (fst (main [''LIVEKIT_URL'' \<mapsto> ''wss://example.livekit.cloud'', ''LIVEKIT_API_KEY'' \<mapsto> ''key'',
       ''LIVEKIT_API_SECRET'' \<mapsto> ''secret'', ''OPENAI_API_KEY'' \<mapsto> ''sk'',
       ''DEEPGRAM_API_KEY'' \<mapsto> ''dg'', ''LIVEKIT_TOKEN'' \<mapsto> ''tok''] NotInstalled \<lparr>events = [], ending = None\<rparr>))) =
     [[LLMUserResponseAggregator, ContextUser \<lparr>pair_context = \<lparr>messages = initial_messages\<rparr>\<rparr>]] \<and>
   map (\<lambda>p. take 2 (drop 5 p)) (pipelines_built (fst (main [''LIVEKIT_URL'' \<mapsto> ''wss://example.livekit.cloud'', ''LIVEKIT_API_KEY'' \<mapsto> ''key'',
       ''LIVEKIT_API_SECRET'' \<mapsto> ''secret'', ''OPENAI_API_KEY'' \<mapsto> ''sk'',
       ''DEEPGRAM_API_KEY'' \<mapsto> ''dg'', ''LIVEKIT_TOKEN'' \<mapsto> ''tok''] NotInstalled \<lparr>events = [], ending = None\<rparr>))) =
     [[LLMResponseAggregator, ContextAssistant \<lparr>pair_context = \<lparr>messages = initial_messages\<rparr>\<rparr>]] \<and>
   map (filter is_context_view) (pipelines_built (fst (main [''LIVEKIT_URL'' \<mapsto> ''wss://example.livekit.cloud'', ''LIVEKIT_API_KEY'' \<mapsto> ''key'',
       ''LIVEKIT_API_SECRET'' \<mapsto> ''secret'', ''OPENAI_API_KEY'' \<mapsto> ''sk'',
       ''DEEPGRAM_API_KEY'' \<mapsto> ''dg'', ''LIVEKIT_TOKEN'' \<mapsto> ''tok''] NotInstalled \<lparr>events = [], ending = None\<rparr>))) =
     [[ContextUser \<lparr>pair_context = \<lparr>messages = initial_messages\<rparr>\<rparr>, ContextAssistant \<lparr>pair_context = \<lparr>messages = initial_messages\<rparr>\<rparr>]] \<and>
   list_all
     (\<lambda>c. snapshot (after_turns c [UserTurn ''hello there'', AssistantTurn ''Hi! How can I help?'']) =
            [\<lparr>role = ''system'',
         content =
           ''You are a helpful and friendly assistant. '' @
           ''Keep your responses concise and natural for voice conversation. '' @
           ''Respond in a conversational, friendly tone.''\<rparr>,
             \<lparr>role = ''user'', content = ''hello there''\<rparr>,
             \<lparr>role = ''assistant'', content = ''Hi! How can I help?''\<rparr>])
     (contexts_built (fst (main [''LIVEKIT_URL'' \<mapsto> ''wss://example.livekit.cloud'', ''LIVEKIT_API_KEY'' \<mapsto> ''key'',
       ''LIVEKIT_API_SECRET'' \<mapsto> ''secret'', ''OPENAI_API_KEY'' \<mapsto> ''sk'',
       ''DEEPGRAM_API_KEY'' \<mapsto> ''dg'', ''LIVEKIT_TOKEN'' \<mapsto> ''tok''] NotInstalled \<lparr>events = [], ending = None\<rparr>)))"
  using context_is_append_only
    [of "[''LIVEKIT_URL'' \<mapsto> ''wss://example.livekit.cloud'', ''LIVEKIT_API_KEY'' \<mapsto> ''key'',
       ''LIVEKIT_API_SECRET'' \<mapsto> ''secret'', ''OPENAI_API_KEY'' \<mapsto> ''sk'',
       ''DEEPGRAM_API_KEY'' \<mapsto> ''dg'', ''LIVEKIT_TOKEN'' \<mapsto> ''tok'']" NotInstalled "\<lparr>events = [], ending = None\<rparr>"
      "[UserTurn ''hello there'', AssistantTurn ''Hi! How can I help?'']" "[]"]
  by (simp add: starts_not_installed required_ok_def)

end
